theory Spec2Isabelle
  imports Main "HOL-Library.Word"
begin

section \<open>The portable counting semaphore of \<^verbatim>\<open>common/alsem.cpp\<close>\<close>

text \<open>
  \<^verbatim>\<open>al::semaphore\<close> has four build-time variants of the same members: Win32,
  libdispatch, Mach and POSIX.  The constructor, \<^verbatim>\<open>post\<close>, \<^verbatim>\<open>wait\<close> and \<^verbatim>\<open>try_wait\<close> of each
  variant are embedded as functions on the state of the one semaphore they work on
  (the destructors, one unchecked release call each, are left out).  The model is
  sequential: it follows the calling thread only, and no other thread runs while a
  member executes.

  \<^item> A thrown \<^verbatim>\<open>std::system_error\<close> is the left injection of a sum, carrying the
    \<^verbatim>\<open>std::errc\<close> value the source passes to \<^verbatim>\<open>std::make_error_code\<close>.
  \<^item> A call that parks the thread in a native wait without timeout, on a native object
    that holds no token, is the outcome \<open>Blocked\<close>: in the sequential model nothing
    can wake the thread, so the call never returns.
\<close>

subsection \<open>Shared vocabulary\<close>

datatype errc = value_too_large | resource_unavailable_try_again

datatype 'a outcome = Returned 'a | Blocked

text \<open>
  Modelled from the spec: the operating system's supply of synchronisation objects
  (the spec's "handle/table exhaustion") is not part of the repository.  \<open>live\<close> counts
  the objects currently allocated, \<open>quota\<close> is the most the system grants.
\<close>

record os_table =
  live :: nat
  quota :: nat

definition os_has_room :: "os_table \<Rightarrow> bool" where
  "os_has_room os = (live os < quota os)"

definition os_allocate :: "os_table \<Rightarrow> os_table" where
  "os_allocate os = os\<lparr>live := Suc (live os)\<rparr>"

text \<open>The scenario "call the member \<open>n\<close> times in sequence": the calls made, in order,
  up to the first one that blocks.\<close>

fun calls :: "('s \<Rightarrow> 'a outcome \<times> 's) \<Rightarrow> nat \<Rightarrow> 's \<Rightarrow> 'a outcome list \<times> 's" where
  "calls f 0 s = ([], s)"
| "calls f (Suc n) s =
     (case f s of
        (Blocked, s') \<Rightarrow> ([Blocked], s')
      | (Returned r, s') \<Rightarrow> (case calls f n s' of (rs, s'') \<Rightarrow> (Returned r # rs, s'')))"

subsection \<open>The Mach backend (lines 92 to 136)\<close>

text \<open>
  \<^verbatim>\<open>mSem\<close> is a struct of a Mach semaphore port \<^verbatim>\<open>sem\<close> and an atomic signed counter
  \<^verbatim>\<open>value\<close>.  Its declaration (\<^verbatim>\<open>alsem.h\<close>) is not among the sources, so the counter's
  width is a parameter: the counter is a \<open>'w word\<close>, read as two's complement by
  \<open>sint\<close>, and atomic arithmetic wraps.

  Modelled from the spec: the kernel semaphore behind the port is the counting
  semaphore of the spec's glossary.  The port is identified with the object it names:
  \<open>None\<close> is \<^verbatim>\<open>MACH_PORT_NULL\<close>, \<open>Some n\<close> a kernel semaphore holding \<open>n\<close> pending signals.

  \<open>trace\<close> is a ghost field: the stores to the atomic counter and the kernel calls the
  calling thread has made, in program order.
\<close>

datatype kern_return_t =
  KERN_SUCCESS | KERN_INVALID_ARGUMENT | KERN_RESOURCE_SHORTAGE | KERN_ABORTED

datatype sync_policy = SYNC_POLICY_FIFO | SYNC_POLICY_FIXED_PRIORITY

datatype 'v mach_event =
    Counter_store 'v
  | Call_semaphore_create sync_policy nat
  | Call_semaphore_signal
  | Call_semaphore_wait

type_synonym semaphore_t = "nat option"

record 'v native_type =
  sem :: semaphore_t
  value' :: 'v
  trace :: "'v mach_event list"

type_synonym 'w mach = "('w word) native_type"

definition log :: "'v mach_event \<Rightarrow> 'v native_type \<Rightarrow> 'v native_type" where
  "log e m = m\<lparr>trace := trace m @ [e]\<rparr>"

text \<open>The operations of \<^verbatim>\<open>std::atomic\<close> the source uses.  Each returns what the C++
  operation returns, and the state after it.  \<open>compare_exchange_weak\<close> may fail
  spuriously (\<open>spurious\<close>); on failure it hands back the value it found.\<close>

definition store :: "'w::len word \<Rightarrow> 'w mach \<Rightarrow> 'w mach" where
  "store v m = log (Counter_store v) (m\<lparr>value' := v\<rparr>)"

definition load :: "'w::len mach \<Rightarrow> 'w word" where
  "load m = value' m"

definition fetch_add :: "'w::len word \<Rightarrow> 'w mach \<Rightarrow> 'w word \<times> 'w mach" where
  "fetch_add d m = (value' m, store (value' m + d) m)"

definition fetch_sub :: "'w::len word \<Rightarrow> 'w mach \<Rightarrow> 'w word \<times> 'w mach" where
  "fetch_sub d m = (value' m, store (value' m - d) m)"

definition compare_exchange_weak ::
  "bool \<Rightarrow> 'w::len word \<Rightarrow> 'w word \<Rightarrow> 'w mach \<Rightarrow> (bool \<times> 'w word) \<times> 'w mach" where
  "compare_exchange_weak spurious expected desired m =
     (if value' m = expected \<and> \<not> spurious then ((True, expected), store desired m)
      else ((False, value' m), m))"

text \<open>Modelled from the spec: the Mach kernel calls.  \<open>semaphore_wait\<close> takes a token if
  the kernel semaphore holds one; otherwise the thread is parked, and comes back only
  if the wait is aborted from outside (\<open>aborted\<close>), with \<open>KERN_ABORTED\<close>.\<close>

definition semaphore_create ::
  "os_table \<Rightarrow> sync_policy \<Rightarrow> nat \<Rightarrow> 'w::len mach \<Rightarrow> kern_return_t \<times> 'w mach \<times> os_table" where
  "semaphore_create os policy v m =
     (if os_has_room os
      then (KERN_SUCCESS, log (Call_semaphore_create policy v) (m\<lparr>sem := Some v\<rparr>), os_allocate os)
      else (KERN_RESOURCE_SHORTAGE, log (Call_semaphore_create policy v) m, os))"

definition semaphore_signal :: "'w::len mach \<Rightarrow> kern_return_t \<times> 'w mach" where
  "semaphore_signal m =
     (case sem m of
        None \<Rightarrow> (KERN_INVALID_ARGUMENT, log Call_semaphore_signal m)
      | Some n \<Rightarrow> (KERN_SUCCESS, log Call_semaphore_signal (m\<lparr>sem := Some (Suc n)\<rparr>)))"

definition semaphore_wait :: "bool \<Rightarrow> 'w::len mach \<Rightarrow> kern_return_t outcome \<times> 'w mach" where
  "semaphore_wait aborted m =
     (case sem m of
        None \<Rightarrow> (Returned KERN_INVALID_ARGUMENT, log Call_semaphore_wait m)
      | Some 0 \<Rightarrow> (if aborted then Returned KERN_ABORTED else Blocked, log Call_semaphore_wait m)
      | Some (Suc n) \<Rightarrow> (Returned KERN_SUCCESS, log Call_semaphore_wait (m\<lparr>sem := Some n\<rparr>)))"

text \<open>The constructor (lines 96 to 104).  \<^verbatim>\<open>initial\<close> is an \<^verbatim>\<open>unsigned int\<close>; the
  assignment converts it to the counter's type.  The result also carries the members
  as they stand when the constructor is left, so that the order of its effects can be
  read off the trace on both paths.\<close>

definition mach_semaphore ::
  "os_table \<Rightarrow> 32 word \<Rightarrow> (errc + unit) \<times> 'w::len mach \<times> os_table" where
  "mach_semaphore os initial =
     (let m1 = \<lparr>sem = None, value' = ucast initial, trace = [Counter_store (ucast initial)]\<rparr>;
          (ret, m2, os') = semaphore_create os SYNC_POLICY_FIFO 0 m1
      in if ret \<noteq> KERN_SUCCESS then (Inl resource_unavailable_try_again, m2, os')
         else (Inr (), m2, os'))"

text \<open>\<^verbatim>\<open>post\<close> (lines 109 to 115).\<close>

definition mach_post :: "'w::len mach \<Rightarrow> errc + 'w mach" where
  "mach_post m =
     (let (val, m1) = fetch_add 1 m
      in if sint val \<le> 0 then Inr (snd (semaphore_signal m1)) else Inr m1)"

text \<open>\<^verbatim>\<open>wait\<close> (lines 117 to 123).\<close>

definition mach_wait :: "bool \<Rightarrow> 'w::len mach \<Rightarrow> unit outcome \<times> 'w mach" where
  "mach_wait aborted m =
     (let (val, m1) = fetch_sub 1 m
      in if sint val < 0
         then (case semaphore_wait aborted m1 of (r, m2) \<Rightarrow> (map_outcome (\<lambda>_. ()) r, m2))
         else (Returned (), m1))"

text \<open>\<^verbatim>\<open>try_wait\<close> (lines 125 to 134).  The loop of lines 128 to 132: \<open>Some b\<close> when the
  loop returns \<open>b\<close> from the member, \<open>None\<close> when it is left normally.  \<open>spurious\<close> is
  the number of spurious failures \<open>compare_exchange_weak\<close> still has in store.\<close>

function try_wait_loop :: "nat \<Rightarrow> 'w::len word \<Rightarrow> 'w mach \<Rightarrow> bool option \<times> 'w mach" where
  "try_wait_loop spurious orig m =
     (if sint orig < 0
      then (case compare_exchange_weak (0 < spurious) orig (orig + 1) m of
              ((True, _), m') \<Rightarrow> (Some False, m')
            | ((False, orig'), m') \<Rightarrow> try_wait_loop (spurious - 1) orig' m')
      else (None, m))"
  by pat_completeness auto
termination
  by (relation "measure (\<lambda>(spurious, orig, m). spurious + (if value' m = orig then 0 else 1))")
     (auto simp: compare_exchange_weak_def split: if_splits)

definition mach_try_wait :: "nat \<Rightarrow> bool \<Rightarrow> 'w::len mach \<Rightarrow> bool outcome \<times> 'w mach" where
  "mach_try_wait spurious aborted m =
     (let orig = load m
      in case try_wait_loop spurious orig m of
           (Some b, m') \<Rightarrow> (Returned b, m')
         | (None, m') \<Rightarrow>
             (case semaphore_wait aborted m' of
                (r, m'') \<Rightarrow> (map_outcome (\<lambda>k. k = KERN_SUCCESS) r, m'')))"

subsection \<open>The Win32 backend (lines 30 to 62)\<close>

text \<open>
  \<^verbatim>\<open>mSem\<close> is the handle of a kernel semaphore, identified with the object it names.

  Modelled from the spec: the Win32 calls.  The kernel semaphore has a current and a
  maximum count; \<open>CreateSemaphore\<close> refuses counts out of range and an exhausted
  system, \<open>ReleaseSemaphore\<close> refuses to pass the maximum, \<open>WaitForSingleObject\<close>
  takes a token if there is one and otherwise waits for the timeout given.
\<close>

record kernel_semaphore =
  current_count :: nat
  maximum_count :: nat

datatype wait_timeout = INFINITE | Milliseconds nat

datatype wait_result = WAIT_OBJECT_0 | WAIT_TIMEOUT | WAIT_FAILED

definition INT_MAX :: nat where
  "INT_MAX = 2147483647"

definition CreateSemaphore :: "os_table \<Rightarrow> int \<Rightarrow> int \<Rightarrow> kernel_semaphore option \<times> os_table" where
  "CreateSemaphore os lInitialCount lMaximumCount =
     (if 0 < lMaximumCount \<and> 0 \<le> lInitialCount \<and> lInitialCount \<le> lMaximumCount \<and> os_has_room os
      then (Some \<lparr>current_count = nat lInitialCount, maximum_count = nat lMaximumCount\<rparr>,
            os_allocate os)
      else (None, os))"

definition ReleaseSemaphore :: "kernel_semaphore \<Rightarrow> nat \<Rightarrow> bool \<times> kernel_semaphore" where
  "ReleaseSemaphore h lReleaseCount =
     (if current_count h + lReleaseCount \<le> maximum_count h
      then (True, h\<lparr>current_count := current_count h + lReleaseCount\<rparr>)
      else (False, h))"

definition WaitForSingleObject ::
  "kernel_semaphore \<Rightarrow> wait_timeout \<Rightarrow> wait_result outcome \<times> kernel_semaphore" where
  "WaitForSingleObject h dwMilliseconds =
     (if 0 < current_count h
      then (Returned WAIT_OBJECT_0, h\<lparr>current_count := current_count h - 1\<rparr>)
      else (case dwMilliseconds of
              INFINITE \<Rightarrow> (Blocked, h)
            | Milliseconds _ \<Rightarrow> (Returned WAIT_TIMEOUT, h)))"

text \<open>The constructor (lines 38 to 45); \<^verbatim>\<open>unsigned int\<close> and \<^verbatim>\<open>int\<close> have 32 bits on
  Win32, and the argument \<^verbatim>\<open>initial\<close> reaches \<open>CreateSemaphore\<close> as a signed \<^verbatim>\<open>LONG\<close>.\<close>

definition win32_semaphore :: "os_table \<Rightarrow> 32 word \<Rightarrow> (errc + kernel_semaphore) \<times> os_table" where
  "win32_semaphore os initial =
     (if unat initial > INT_MAX then (Inl value_too_large, os)
      else (case CreateSemaphore os (sint initial) (int INT_MAX) of
              (None, os') \<Rightarrow> (Inl resource_unavailable_try_again, os')
            | (Some mSem, os') \<Rightarrow> (Inr mSem, os')))"

text \<open>\<^verbatim>\<open>post\<close>, \<^verbatim>\<open>wait\<close> and \<^verbatim>\<open>try_wait\<close> (lines 50 to 60).\<close>

definition win32_post :: "kernel_semaphore \<Rightarrow> errc + kernel_semaphore" where
  "win32_post mSem =
     (case ReleaseSemaphore mSem 1 of
        (False, _) \<Rightarrow> Inl value_too_large
      | (True, mSem') \<Rightarrow> Inr mSem')"

definition win32_wait :: "kernel_semaphore \<Rightarrow> unit outcome \<times> kernel_semaphore" where
  "win32_wait mSem =
     (case WaitForSingleObject mSem INFINITE of (r, mSem') \<Rightarrow> (map_outcome (\<lambda>_. ()) r, mSem'))"

definition win32_try_wait :: "kernel_semaphore \<Rightarrow> bool outcome \<times> kernel_semaphore" where
  "win32_try_wait mSem =
     (case WaitForSingleObject mSem (Milliseconds 0) of
        (r, mSem') \<Rightarrow> (map_outcome (\<lambda>k. k = WAIT_OBJECT_0) r, mSem'))"

subsection \<open>The libdispatch backend (lines 67 to 90)\<close>

text \<open>
  Modelled from the spec: the dispatch semaphore, a counting semaphore in user space.
  \<open>dispatch_semaphore_create\<close> takes a signed \<^verbatim>\<open>long\<close> and gives \<^verbatim>\<open>NULL\<close> (\<open>None\<close>) for a
  negative value or an exhausted system; \<open>dispatch_semaphore_signal\<close> returns non-zero
  when it woke a thread (never, in a sequential run); \<open>dispatch_semaphore_wait\<close>
  returns zero when it took a token and non-zero when it timed out.  The width of
  \<^verbatim>\<open>long\<close> depends on the platform and is the parameter \<open>long_bits\<close>.
\<close>

type_synonym dispatch_semaphore_t = nat

datatype dispatch_time_t = DISPATCH_TIME_NOW | DISPATCH_TIME_FOREVER

definition to_long :: "nat \<Rightarrow> 32 word \<Rightarrow> int" where
  "to_long long_bits u = signed_take_bit (long_bits - 1) (uint u)"

definition dispatch_semaphore_create ::
  "os_table \<Rightarrow> int \<Rightarrow> dispatch_semaphore_t option \<times> os_table" where
  "dispatch_semaphore_create os v =
     (if 0 \<le> v \<and> os_has_room os then (Some (nat v), os_allocate os) else (None, os))"

definition dispatch_semaphore_signal :: "dispatch_semaphore_t \<Rightarrow> int \<times> dispatch_semaphore_t" where
  "dispatch_semaphore_signal d = (0, Suc d)"

definition dispatch_semaphore_wait ::
  "dispatch_semaphore_t \<Rightarrow> dispatch_time_t \<Rightarrow> int outcome \<times> dispatch_semaphore_t" where
  "dispatch_semaphore_wait d timeout =
     (case d of
        Suc n \<Rightarrow> (Returned 0, n)
      | 0 \<Rightarrow> (case timeout of
                DISPATCH_TIME_NOW \<Rightarrow> (Returned 1, 0)
              | DISPATCH_TIME_FOREVER \<Rightarrow> (Blocked, 0)))"

definition dispatch_semaphore ::
  "nat \<Rightarrow> os_table \<Rightarrow> 32 word \<Rightarrow> (errc + dispatch_semaphore_t) \<times> os_table" where
  "dispatch_semaphore long_bits os initial =
     (case dispatch_semaphore_create os (to_long long_bits initial) of
        (None, os') \<Rightarrow> (Inl resource_unavailable_try_again, os')
      | (Some mSem, os') \<Rightarrow> (Inr mSem, os'))"

definition dispatch_post :: "dispatch_semaphore_t \<Rightarrow> errc + dispatch_semaphore_t" where
  "dispatch_post mSem = Inr (snd (dispatch_semaphore_signal mSem))"

definition dispatch_wait :: "dispatch_semaphore_t \<Rightarrow> unit outcome \<times> dispatch_semaphore_t" where
  "dispatch_wait mSem =
     (case dispatch_semaphore_wait mSem DISPATCH_TIME_FOREVER of
        (r, mSem') \<Rightarrow> (map_outcome (\<lambda>_. ()) r, mSem'))"

definition dispatch_try_wait :: "dispatch_semaphore_t \<Rightarrow> bool outcome \<times> dispatch_semaphore_t" where
  "dispatch_try_wait mSem =
     (case dispatch_semaphore_wait mSem DISPATCH_TIME_NOW of
        (r, mSem') \<Rightarrow> (map_outcome (\<lambda>k. k = 0) r, mSem'))"

subsection \<open>The POSIX backend (lines 138 to 168)\<close>

text \<open>
  Modelled from the spec: the unnamed POSIX semaphore.  A call returns \<open>0\<close> (\<open>None\<close>)
  or \<open>-1\<close> with \<^verbatim>\<open>errno\<close> set (\<open>Some e\<close>).  \<^verbatim>\<open>SEM_VALUE_MAX\<close> is a constant of the platform
  and a parameter here.  \<open>sem_wait\<close> takes a token if there is one; otherwise the
  thread is parked, and comes back only if a signal handler interrupts the call
  (\<open>interrupted\<close>), with \<open>EINTR\<close>.
\<close>

type_synonym sem_t = nat

datatype errno = EINTR | EINVAL | EAGAIN | EOVERFLOW | ENOSPC

definition sem_init :: "nat \<Rightarrow> os_table \<Rightarrow> nat \<Rightarrow> (errno + sem_t) \<times> os_table" where
  "sem_init SEM_VALUE_MAX os v =
     (if SEM_VALUE_MAX < v then (Inl EINVAL, os)
      else if \<not> os_has_room os then (Inl ENOSPC, os)
      else (Inr v, os_allocate os))"

definition sem_post :: "nat \<Rightarrow> sem_t \<Rightarrow> errno option \<times> sem_t" where
  "sem_post SEM_VALUE_MAX s = (if s < SEM_VALUE_MAX then (None, Suc s) else (Some EOVERFLOW, s))"

definition sem_wait :: "bool \<Rightarrow> sem_t \<Rightarrow> errno option outcome \<times> sem_t" where
  "sem_wait interrupted s =
     (case s of
        Suc n \<Rightarrow> (Returned None, n)
      | 0 \<Rightarrow> (if interrupted then Returned (Some EINTR) else Blocked, 0))"

definition sem_trywait :: "sem_t \<Rightarrow> errno option \<times> sem_t" where
  "sem_trywait s = (case s of Suc n \<Rightarrow> (None, n) | 0 \<Rightarrow> (Some EAGAIN, 0))"

definition posix_semaphore :: "nat \<Rightarrow> os_table \<Rightarrow> 32 word \<Rightarrow> (errc + sem_t) \<times> os_table" where
  "posix_semaphore SEM_VALUE_MAX os initial =
     (case sem_init SEM_VALUE_MAX os (unat initial) of
        (Inl _, os') \<Rightarrow> (Inl resource_unavailable_try_again, os')
      | (Inr mSem, os') \<Rightarrow> (Inr mSem, os'))"

definition posix_post :: "nat \<Rightarrow> sem_t \<Rightarrow> errc + sem_t" where
  "posix_post SEM_VALUE_MAX mSem =
     (case sem_post SEM_VALUE_MAX mSem of
        (Some _, _) \<Rightarrow> Inl value_too_large
      | (None, mSem') \<Rightarrow> Inr mSem')"

text \<open>\<^verbatim>\<open>wait\<close> (lines 159 to 163): the loop repeats \<open>sem_wait\<close> while it fails with
  \<open>EINTR\<close>.  \<open>signals\<close> is the number of signals that will still interrupt the thread.\<close>

function posix_wait :: "nat \<Rightarrow> sem_t \<Rightarrow> unit outcome \<times> sem_t" where
  "posix_wait signals mSem =
     (case sem_wait (0 < signals) mSem of
        (Blocked, mSem') \<Rightarrow> (Blocked, mSem')
      | (Returned (Some EINTR), mSem') \<Rightarrow> posix_wait (signals - 1) mSem'
      | (Returned _, mSem') \<Rightarrow> (Returned (), mSem'))"
  by pat_completeness auto
termination
  by (relation "measure fst") (auto simp: sem_wait_def split: nat.splits if_splits)

definition posix_try_wait :: "sem_t \<Rightarrow> bool outcome \<times> sem_t" where
  "posix_try_wait mSem =
     (case sem_trywait mSem of (r, mSem') \<Rightarrow> (Returned (r = None), mSem'))"

section \<open>Properties\<close>

declare try_wait_loop.simps [simp del]

declare posix_wait.simps [simp del]

subsection \<open>What the Mach members compute\<close>

lemma store_simps:
  "value' (store v m) = v"
  "sem (store v m) = sem m"
  "trace (store v m) = trace m @ [Counter_store v]"
  by (simp_all add: store_def log_def)

lemma semaphore_wait_frame:
  "value' (snd (semaphore_wait a m)) = value' m"
  "trace (snd (semaphore_wait a m)) = trace m @ [Call_semaphore_wait]"
  by (simp_all add: semaphore_wait_def log_def split: option.split nat.split)

text \<open>In a sequential run the counter still holds the value loaded into \<open>orig\<close>, so the
  loop ends with the first exchange that does not fail spuriously.\<close>

lemma try_wait_loop_negative:
  "value' m = orig \<Longrightarrow> sint orig < 0 \<Longrightarrow>
     try_wait_loop n orig m = (Some False, store (orig + 1) m)"
proof (induction n)
  case 0
  then show ?case
    by (subst try_wait_loop.simps) (simp add: compare_exchange_weak_def)
next
  case (Suc n)
  then show ?case
    by (subst try_wait_loop.simps) (simp add: compare_exchange_weak_def)
qed

lemma try_wait_loop_nonnegative:
  "\<not> sint orig < 0 \<Longrightarrow> try_wait_loop n orig m = (None, m)"
  by (subst try_wait_loop.simps) simp

lemma mach_try_wait_eq:
  "mach_try_wait n a m =
     (if sint (value' m) < 0 then (Returned False, store (value' m + 1) m)
      else (map_outcome (\<lambda>k. k = KERN_SUCCESS) (fst (semaphore_wait a m)),
            snd (semaphore_wait a m)))"
  by (simp add: mach_try_wait_def load_def try_wait_loop_negative try_wait_loop_nonnegative
      split: prod.split)

lemma mach_wait_eq:
  "mach_wait a m =
     (if sint (value' m) < 0
      then (map_outcome (\<lambda>_. ()) (fst (semaphore_wait a (store (value' m - 1) m))),
            snd (semaphore_wait a (store (value' m - 1) m)))
      else (Returned (), store (value' m - 1) m))"
  by (simp add: mach_wait_def fetch_sub_def split: prod.split)

text \<open>\<^verbatim>\<open>wait\<close> stores the decremented counter and calls the kernel exactly when the value
  before the decrement is negative.\<close>

lemma mach_wait_trace:
  "trace (snd (mach_wait a m)) =
     trace m @ Counter_store (value' m - 1) #
       (if sint (value' m) < 0 then [Call_semaphore_wait] else [])"
  by (simp add: mach_wait_eq semaphore_wait_frame store_simps)

text \<open>On a freshly constructed semaphore whose counter is not negative, whatever the
  initial count, \<^verbatim>\<open>try_wait\<close> parks the thread in the kernel.\<close>

lemma mach_try_wait_fresh_blocks:
  assumes "os_has_room os" and "0 \<le> sint (ucast initial :: 'w::len word)"
  shows "fst (mach_try_wait n False (fst (snd (mach_semaphore os initial :: _ \<times> 'w mach \<times> _)))) =
           Blocked"
  using assms
  by (simp add: mach_semaphore_def semaphore_create_def mach_try_wait_eq semaphore_wait_def
      log_def)

subsection \<open>What the members of the other backends compute\<close>

lemma win32_wait_eq:
  "win32_wait h =
     (if 0 < current_count h then (Returned (), h\<lparr>current_count := current_count h - 1\<rparr>)
      else (Blocked, h))"
  by (simp add: win32_wait_def WaitForSingleObject_def)

lemma dispatch_wait_eq:
  "dispatch_wait d = (case d of Suc n \<Rightarrow> (Returned (), n) | 0 \<Rightarrow> (Blocked, 0))"
  by (simp add: dispatch_wait_def dispatch_semaphore_wait_def split: nat.split)

text \<open>The POSIX loop retries every interrupted \<open>sem_wait\<close>: however many signals arrive,
  \<^verbatim>\<open>wait\<close> returns exactly when it has taken a token.\<close>

lemma posix_wait_eq:
  "posix_wait signals mSem = (case mSem of Suc n \<Rightarrow> (Returned (), n) | 0 \<Rightarrow> (Blocked, 0))"
proof (induction signals arbitrary: mSem)
  case 0
  show ?case
    by (subst posix_wait.simps) (simp add: sem_wait_def split: nat.split)
next
  case (Suc signals)
  show ?case
    by (subst posix_wait.simps) (simp add: sem_wait_def Suc.IH split: nat.split)
qed

lemma posix_wait_consumes:
  "posix_wait signals mSem = (Returned (), mSem') \<Longrightarrow> mSem = Suc mSem'"
  by (simp add: posix_wait_eq split: nat.splits)

lemma try_wait_never_blocks:
  "fst (win32_try_wait h) \<noteq> Blocked"
  "fst (dispatch_try_wait d) \<noteq> Blocked"
  "fst (posix_try_wait s) \<noteq> Blocked"
  by (simp_all add: win32_try_wait_def WaitForSingleObject_def dispatch_try_wait_def
      dispatch_semaphore_wait_def posix_try_wait_def split: prod.split nat.split)

text \<open>On the three backends that hand \<^verbatim>\<open>try_wait\<close> to a native probe, a semaphore
  constructed with \<open>N\<close> tokens answers \<open>N\<close> probes with true and the next with false.\<close>

lemma calls_win32_try_wait:
  "calls win32_try_wait (Suc n) \<lparr>current_count = n, maximum_count = M\<rparr> =
     (replicate n (Returned True) @ [Returned False], \<lparr>current_count = 0, maximum_count = M\<rparr>)"
  by (induction n) (simp_all add: win32_try_wait_def WaitForSingleObject_def)

lemma calls_dispatch_try_wait:
  "calls dispatch_try_wait (Suc n) n = (replicate n (Returned True) @ [Returned False], 0)"
  by (induction n) (simp_all add: dispatch_try_wait_def dispatch_semaphore_wait_def)

lemma calls_posix_try_wait:
  "calls posix_try_wait (Suc n) n = (replicate n (Returned True) @ [Returned False], 0)"
  by (induction n) (simp_all add: posix_try_wait_def sem_trywait_def)

lemma INT_MAX_pos: "0 < INT_MAX"
  by (simp add: INT_MAX_def)

lemma sint_small:
  assumes "unat (initial :: 32 word) \<le> INT_MAX"
  shows "sint initial = int (unat initial)"
proof -
  from assms have "int (unat initial) < 2147483648"
    unfolding INT_MAX_def by linarith
  then have up: "uint initial < 2 ^ 31"
    by simp
  have lo: "- (2 ^ 31) \<le> uint initial"
    by (rule order_trans [of _ 0]) simp_all
  from lo up have "signed_take_bit 31 (uint initial) = uint initial"
    by (rule signed_take_bit_int_eq_self)
  then show ?thesis
    by (simp add: sint_uint)
qed

lemma win32_semaphore_ok:
  assumes "unat initial \<le> INT_MAX" and "os_has_room os"
  shows "win32_semaphore os initial =
           (Inr \<lparr>current_count = unat initial, maximum_count = INT_MAX\<rparr>, os_allocate os)"
proof -
  from assms(1) have le: "int (unat initial) \<le> int INT_MAX"
    by linarith
  have "CreateSemaphore os (int (unat initial)) (int INT_MAX) =
          (Some \<lparr>current_count = unat initial, maximum_count = INT_MAX\<rparr>, os_allocate os)"
    unfolding CreateSemaphore_def using le assms(2) INT_MAX_pos by simp
  moreover from assms(1) have "\<not> unat initial > INT_MAX"
    by simp
  ultimately show ?thesis
    unfolding win32_semaphore_def sint_small [OF assms(1)] by simp
qed

lemma win32_try_wait_sequence:
  assumes "unat initial \<le> INT_MAX" and "os_has_room os"
  shows "\<exists>mSem os'. win32_semaphore os initial = (Inr mSem, os') \<and>
           fst (calls win32_try_wait (Suc (unat initial)) mSem) =
             replicate (unat initial) (Returned True) @ [Returned False]"
proof (intro exI conjI)
  show "win32_semaphore os initial =
          (Inr \<lparr>current_count = unat initial, maximum_count = INT_MAX\<rparr>, os_allocate os)"
    by (rule win32_semaphore_ok [OF assms])
  show "fst (calls win32_try_wait (Suc (unat initial))
               \<lparr>current_count = unat initial, maximum_count = INT_MAX\<rparr>) =
          replicate (unat initial) (Returned True) @ [Returned False]"
    by (simp only: calls_win32_try_wait fst_conv)
qed

lemma dispatch_try_wait_sequence:
  assumes "0 \<le> to_long long_bits initial" and "os_has_room os"
  shows "\<exists>mSem os'. dispatch_semaphore long_bits os initial = (Inr mSem, os') \<and>
           int mSem = to_long long_bits initial \<and>
           fst (calls dispatch_try_wait (Suc mSem) mSem) =
             replicate mSem (Returned True) @ [Returned False]"
  using assms
  by (simp add: dispatch_semaphore_def dispatch_semaphore_create_def calls_dispatch_try_wait
      del: calls.simps)

lemma posix_try_wait_sequence:
  assumes "unat initial \<le> SEM_VALUE_MAX" and "os_has_room os"
  shows "\<exists>os'. posix_semaphore SEM_VALUE_MAX os initial = (Inr (unat initial), os') \<and>
           fst (calls posix_try_wait (Suc (unat initial)) (unat initial)) =
             replicate (unat initial) (Returned True) @ [Returned False]"
  using assms
  by (simp add: posix_semaphore_def sem_init_def calls_posix_try_wait del: calls.simps)

subsection \<open>The claims\<close>

text \<open>
  C1.  The claim: the Mach \<^verbatim>\<open>wait\<close> decrements the counter and blocks on the kernel
  semaphore exactly when the value after the decrement is negative, that is, for an
  entry value \<open>v\<close>, when \<open>v - 1 < 0\<close>.  The source tests what \<open>fetch_sub\<close> returns, the
  value before the decrement (\<open>mach_wait_eq\<close>, \<open>mach_wait_trace\<close>).  The two tests differ at \<open>v = 0\<close>: on
  a semaphore freshly constructed with no token, the claim asks for a blocked thread;
  the code makes no kernel call and returns at once, leaving the counter at \<open>-1\<close>.
\<close>

theorem mach_wait_at_zero:
  "mach_wait False (fst (snd (mach_semaphore \<lparr>live = 0, quota = 1\<rparr> 0))) =
     (Returned (),
      \<lparr>sem = Some 0, value' = - 1,
       trace = [Counter_store 0, Call_semaphore_create SYNC_POLICY_FIFO 0, Counter_store (- 1)]\<rparr>)"
  by (simp add: mach_semaphore_def semaphore_create_def os_has_room_def os_allocate_def
      mach_wait_def fetch_sub_def store_def log_def)

text \<open>
  C2.  The claim: on each backend, a semaphore constructed with \<open>N\<close> tokens answers \<open>N\<close>
  calls of \<^verbatim>\<open>try_wait\<close> with true and the next with false.  It holds on the Win32,
  libdispatch and POSIX backends (\<open>win32_try_wait_sequence\<close>,
  \<open>dispatch_try_wait_sequence\<close>, \<open>posix_try_wait_sequence\<close>).  On the Mach backend the
  tokens live in the atomic counter only and the kernel semaphore is created empty, yet
  \<^verbatim>\<open>try_wait\<close> with a non-negative counter waits on the kernel semaphore
  (\<open>mach_try_wait_fresh_blocks\<close>): with \<open>N = 1\<close> the first of the two calls never
  returns.
\<close>

theorem mach_try_wait_sequence_blocks:
  "calls (mach_try_wait 0 False) 2 (fst (snd (mach_semaphore \<lparr>live = 0, quota = 1\<rparr> 1))) =
     ([Blocked],
      \<lparr>sem = Some 0, value' = (1 :: 64 word),
       trace = [Counter_store 1, Call_semaphore_create SYNC_POLICY_FIFO 0, Call_semaphore_wait]\<rparr>)"
  by (simp add: numeral_2_eq_2 mach_semaphore_def semaphore_create_def os_has_room_def
      os_allocate_def mach_try_wait_eq semaphore_wait_def log_def)

text \<open>
  C3.  The Mach \<^verbatim>\<open>post\<close> increments the atomic counter (the only store to it), and it
  signals the kernel semaphore, once, exactly when the value before the increment was
  at most zero; when that value was positive it makes no kernel call.  It never fails.
\<close>

theorem mach_post_increments_and_signals:
  "mach_post m =
     Inr (m\<lparr>value' := value' m + 1,
            sem := (if sint (value' m) \<le> 0 then map_option Suc (sem m) else sem m),
            trace := trace m @ Counter_store (value' m + 1) #
                     (if sint (value' m) \<le> 0 then [Call_semaphore_signal] else [])\<rparr>)"
  by (simp add: mach_post_def fetch_add_def store_def log_def semaphore_signal_def
      split: option.split)

text \<open>
  C4.  The claim: \<^verbatim>\<open>post\<close> surfaces the overflow error on the Win32 backend only, and
  always succeeds on the libdispatch, Mach and POSIX backends.  The POSIX \<^verbatim>\<open>post\<close>
  throws \<open>value_too_large\<close> whenever \<open>sem_post\<close> fails, as it does on a semaphore that
  stands at \<^verbatim>\<open>SEM_VALUE_MAX\<close>.
\<close>

theorem posix_post_overflow:
  "posix_post 2147483647 2147483647 = Inl value_too_large"
  by (simp add: posix_post_def sem_post_def)

text \<open>
  C4, as amended.  \<^verbatim>\<open>post\<close> surfaces an error, always \<open>value_too_large\<close>, on two
  backends: Win32, exactly when \<open>ReleaseSemaphore\<close> fails (the count stands at the
  maximum), and POSIX, exactly when \<open>sem_post\<close> fails (the count stands at
  \<^verbatim>\<open>SEM_VALUE_MAX\<close>).  On the libdispatch and Mach backends every call of \<^verbatim>\<open>post\<close>
  succeeds.
\<close>

theorem post_errors_by_backend:
  "win32_post h =
     (if current_count h < maximum_count h
      then Inr (h\<lparr>current_count := Suc (current_count h)\<rparr>)
      else Inl value_too_large) \<and>
   posix_post SEM_VALUE_MAX s = (if s < SEM_VALUE_MAX then Inr (Suc s) else Inl value_too_large) \<and>
   dispatch_post d = Inr (Suc d) \<and>
   (\<exists>m'. mach_post m = Inr m')"
proof (intro conjI)
  show "win32_post h =
     (if current_count h < maximum_count h
      then Inr (h\<lparr>current_count := Suc (current_count h)\<rparr>)
      else Inl value_too_large)"
    by (simp add: win32_post_def ReleaseSemaphore_def)
  show "posix_post SEM_VALUE_MAX s =
     (if s < SEM_VALUE_MAX then Inr (Suc s) else Inl value_too_large)"
    by (simp add: posix_post_def sem_post_def)
  show "dispatch_post d = Inr (Suc d)"
    by (simp add: dispatch_post_def dispatch_semaphore_signal_def)
  show "\<exists>m'. mach_post m = Inr m'"
    by (simp add: mach_post_def split: prod.split)
qed

text \<open>
  C5.  On the Win32 backend the constructor fails with \<open>value_too_large\<close> (the spec's
  InvalidArgument) for every initial count above the maximum of a 32-bit signed
  integer, and whenever the constructor fails, with either error, the system's table
  of allocated objects is as it was before the call.
\<close>

theorem win32_semaphore_failure:
  "(INT_MAX < unat initial \<longrightarrow> win32_semaphore os initial = (Inl value_too_large, os)) \<and>
   (\<forall>e os'. win32_semaphore os initial = (Inl e, os') \<longrightarrow> os' = os)"
  by (auto simp add: win32_semaphore_def CreateSemaphore_def split: if_splits)

theorem win32_semaphore_failure_witness:
  "INT_MAX < unat (4294967295 :: 32 word) \<and>
   win32_semaphore \<lparr>live = 3, quota = 8\<rparr> 4294967295 =
     (Inl value_too_large, \<lparr>live = 3, quota = 8\<rparr>) \<and>
   win32_semaphore \<lparr>live = 8, quota = 8\<rparr> 5 =
     (Inl resource_unavailable_try_again, \<lparr>live = 8, quota = 8\<rparr>)"
proof -
  have big: "INT_MAX < unat (4294967295 :: 32 word)"
    by (simp add: INT_MAX_def)
  have full: "fst (win32_semaphore \<lparr>live = 8, quota = 8\<rparr> 5) = Inl resource_unavailable_try_again"
    by (simp add: win32_semaphore_def CreateSemaphore_def INT_MAX_def os_has_room_def)
  from win32_semaphore_failure [of 4294967295 "\<lparr>live = 3, quota = 8\<rparr>"] big
  have one: "win32_semaphore \<lparr>live = 3, quota = 8\<rparr> 4294967295 =
      (Inl value_too_large, \<lparr>live = 3, quota = 8\<rparr>)"
    by blast
  from win32_semaphore_failure [of 5 "\<lparr>live = 8, quota = 8\<rparr>"] full
  have two: "win32_semaphore \<lparr>live = 8, quota = 8\<rparr> 5 =
      (Inl resource_unavailable_try_again, \<lparr>live = 8, quota = 8\<rparr>)"
    by (metis prod.collapse)
  from big one two show ?thesis by blast
qed

text \<open>
  C6.  The claim: on every backend \<^verbatim>\<open>wait\<close> retries a transient interruption of its
  blocking call, and so returns only after it has taken a token.  The POSIX \<^verbatim>\<open>wait\<close>
  does (\<open>posix_wait_consumes\<close>), and the Win32 and libdispatch waits return only with a
  token (\<open>win32_wait_eq\<close>, \<open>dispatch_wait_eq\<close>).  The Mach \<^verbatim>\<open>wait\<close> discards what
  \<open>semaphore_wait\<close> returns: with one waiter registered and no signal pending, a wait
  that the kernel aborts returns normally, and the kernel semaphore has given no token.
\<close>

theorem mach_wait_aborted_returns:
  "mach_wait True \<lparr>sem = Some 0, value' = - 1, trace = []\<rparr> =
     (Returned (),
      \<lparr>sem = Some 0, value' = - 2, trace = [Counter_store (- 2), Call_semaphore_wait]\<rparr>)"
  by (simp add: mach_wait_def fetch_sub_def store_def semaphore_wait_def log_def)

text \<open>
  C7.  The claim: on no backend does \<^verbatim>\<open>try_wait\<close> reach a kernel wait without timeout.
  The probes of the Win32, libdispatch and POSIX backends never block
  (\<open>try_wait_never_blocks\<close>).  The Mach \<^verbatim>\<open>try_wait\<close> calls \<open>semaphore_wait\<close>, which has no
  timeout, whenever the counter it loaded is not negative: on a semaphore freshly
  constructed with no token the thread is parked in the kernel.
\<close>

theorem mach_try_wait_reaches_kernel_wait:
  "mach_try_wait 0 False (fst (snd (mach_semaphore \<lparr>live = 0, quota = 1\<rparr> 0))) =
     (Blocked,
      \<lparr>sem = Some 0, value' = 0,
       trace = [Counter_store 0, Call_semaphore_create SYNC_POLICY_FIFO 0, Call_semaphore_wait]\<rparr>)"
  by (simp add: mach_semaphore_def semaphore_create_def os_has_room_def
      os_allocate_def mach_try_wait_eq semaphore_wait_def log_def)

text \<open>
  C8.  The constructor's error for an oversized initial count (the spec's
  InvalidArgument, Win32) and the error of a \<^verbatim>\<open>post\<close> that the native call refuses (the
  spec's Overflow, Win32 and POSIX) are the same \<^verbatim>\<open>std::errc\<close> value, \<open>value_too_large\<close>.
\<close>

theorem invalid_argument_and_overflow_same_code:
  "(INT_MAX < unat initial \<longrightarrow> fst (win32_semaphore os initial) = Inl value_too_large) \<and>
   (\<forall>e. win32_post h = Inl e \<longrightarrow> e = value_too_large) \<and>
   (\<forall>e. posix_post SEM_VALUE_MAX s = Inl e \<longrightarrow> e = value_too_large)"
  by (auto simp add: win32_semaphore_def win32_post_def posix_post_def
      split: prod.splits bool.splits option.splits)

theorem invalid_argument_and_overflow_same_code_witness:
  "INT_MAX < unat (2147483648 :: 32 word) \<and>
   fst (win32_semaphore \<lparr>live = 0, quota = 1\<rparr> 2147483648) = Inl value_too_large \<and>
   win32_post \<lparr>current_count = 2147483647, maximum_count = 2147483647\<rparr> = Inl value_too_large \<and>
   posix_post 32767 32767 = Inl value_too_large"
proof -
  have big: "INT_MAX < unat (2147483648 :: 32 word)"
    by (simp add: INT_MAX_def)
  have w: "\<exists>e. win32_post \<lparr>current_count = 2147483647, maximum_count = 2147483647\<rparr> = Inl e"
    by (simp add: win32_post_def ReleaseSemaphore_def)
  have p: "\<exists>e. posix_post 32767 32767 = Inl e"
    by (simp add: posix_post_def sem_post_def)
  from invalid_argument_and_overflow_same_code
    [of 2147483648 "\<lparr>live = 0, quota = 1\<rparr>"
        "\<lparr>current_count = 2147483647, maximum_count = 2147483647\<rparr>" 32767 32767] big w p
  show ?thesis by blast
qed

text \<open>
  C9.  Whatever the initial count, the Mach constructor first stores the initial count
  (converted to the counter's type) in the atomic counter and then asks the kernel for a
  semaphore of count zero: on success the kernel semaphore holds no signal and the
  tokens are in the counter alone.
\<close>

theorem mach_semaphore_kernel_count_zero:
  "mach_semaphore os initial =
     (if os_has_room os
      then (Inr (),
            \<lparr>sem = Some 0, value' = ucast initial,
             trace = [Counter_store (ucast initial), Call_semaphore_create SYNC_POLICY_FIFO 0]\<rparr>,
            os_allocate os)
      else (Inl resource_unavailable_try_again,
            \<lparr>sem = None, value' = ucast initial,
             trace = [Counter_store (ucast initial), Call_semaphore_create SYNC_POLICY_FIFO 0]\<rparr>,
            os))"
  by (simp add: mach_semaphore_def semaphore_create_def log_def)

text \<open>
  C10.  When the counter the Mach \<^verbatim>\<open>try_wait\<close> loads is not negative, the member leaves
  the counter as it is: its only effect is the kernel wait, with no store to the
  counter before or after.  Whenever \<^verbatim>\<open>try_wait\<close> does change the counter, it returns
  false and the change is one store of the old value plus one.
\<close>

theorem mach_try_wait_counter_frame:
  "(0 \<le> sint (value' m) \<longrightarrow>
      value' (snd (mach_try_wait n a m)) = value' m \<and>
      trace (snd (mach_try_wait n a m)) = trace m @ [Call_semaphore_wait]) \<and>
   (value' (snd (mach_try_wait n a m)) \<noteq> value' m \<longrightarrow>
      fst (mach_try_wait n a m) = Returned False \<and>
      value' (snd (mach_try_wait n a m)) = value' m + 1 \<and>
      trace (snd (mach_try_wait n a m)) = trace m @ [Counter_store (value' m + 1)])"
  by (simp add: mach_try_wait_eq semaphore_wait_frame store_simps)

theorem mach_try_wait_counter_frame_witness:
  "0 \<le> sint (3 :: 64 word) \<and>
   value' (snd (mach_try_wait 0 False \<lparr>sem = Some 0, value' = 3 :: 64 word, trace = []\<rparr>)) = 3 \<and>
   trace (snd (mach_try_wait 0 False \<lparr>sem = Some 0, value' = 3 :: 64 word, trace = []\<rparr>)) =
     [Call_semaphore_wait] \<and>
   value' (snd (mach_try_wait 2 False \<lparr>sem = Some 0, value' = - 1 :: 64 word, trace = []\<rparr>)) \<noteq> - 1 \<and>
   fst (mach_try_wait 2 False \<lparr>sem = Some 0, value' = - 1 :: 64 word, trace = []\<rparr>) =
     Returned False \<and>
   value' (snd (mach_try_wait 2 False \<lparr>sem = Some 0, value' = - 1 :: 64 word, trace = []\<rparr>)) = 0 \<and>
   trace (snd (mach_try_wait 2 False \<lparr>sem = Some 0, value' = - 1 :: 64 word, trace = []\<rparr>)) =
     [Counter_store 0]"
proof -
  have nonneg: "0 \<le> sint (value' \<lparr>sem = Some 0, value' = 3 :: 64 word, trace = []\<rparr>)"
    by simp
  have changed:
    "value' (snd (mach_try_wait 2 False \<lparr>sem = Some 0, value' = - 1 :: 64 word, trace = []\<rparr>)) \<noteq>
       value' \<lparr>sem = Some 0, value' = - 1 :: 64 word, trace = []\<rparr>"
    by (simp add: mach_try_wait_eq store_simps)
  from mach_try_wait_counter_frame
    [of "\<lparr>sem = Some 0, value' = 3 :: 64 word, trace = []\<rparr>" 0 False] nonneg
  have one:
    "value' (snd (mach_try_wait 0 False \<lparr>sem = Some 0, value' = 3 :: 64 word, trace = []\<rparr>)) =
       value' \<lparr>sem = Some 0, value' = 3 :: 64 word, trace = []\<rparr> \<and>
     trace (snd (mach_try_wait 0 False \<lparr>sem = Some 0, value' = 3 :: 64 word, trace = []\<rparr>)) =
       trace \<lparr>sem = Some 0, value' = 3 :: 64 word, trace = []\<rparr> @ [Call_semaphore_wait]"
    by blast
  from mach_try_wait_counter_frame
    [of "\<lparr>sem = Some 0, value' = - 1 :: 64 word, trace = []\<rparr>" 2 False] changed
  have two:
    "fst (mach_try_wait 2 False \<lparr>sem = Some 0, value' = - 1 :: 64 word, trace = []\<rparr>) =
       Returned False \<and>
     value' (snd (mach_try_wait 2 False \<lparr>sem = Some 0, value' = - 1 :: 64 word, trace = []\<rparr>)) =
       value' \<lparr>sem = Some 0, value' = - 1 :: 64 word, trace = []\<rparr> + 1 \<and>
     trace (snd (mach_try_wait 2 False \<lparr>sem = Some 0, value' = - 1 :: 64 word, trace = []\<rparr>)) =
       trace \<lparr>sem = Some 0, value' = - 1 :: 64 word, trace = []\<rparr> @
         [Counter_store (value' \<lparr>sem = Some 0, value' = - 1 :: 64 word, trace = []\<rparr> + 1)]"
    by blast
  from nonneg changed one two show ?thesis
    by simp
qed

end
